theory Spec2Isabelle
  imports Main "HOL-Library.Product_Lexorder" "HOL-Library.Multiset"
begin

section \<open>Python values and exceptions\<close>

text \<open>
  The program is one Python module, \<^verbatim>\<open>imdb-renamer.py\<close>. Exceptions are values of
  \<open>exn\<close>; a call that may raise returns \<open>exn + 'a\<close> with \<open>Inl\<close> the exception.
  \<open>CatalogUnavailable\<close> stands for any exception raised by the network libraries.
\<close>

datatype exn = CatalogUnavailable | KeyError string | EOFError | TypeError

text \<open>
  The values stored in the candidate dictionaries. A float is only ever a rating; ratings
  of the catalog have one decimal, so \<open>PFloat n\<close> is the float nearest to \<open>n / 10\<close>.
\<close>

datatype pyval = PStr string | PInt int | PFloat int | PBool bool

section \<open>The retry decorator\<close>

text \<open>
  \<^verbatim>\<open>retry(max_retries, delay)\<close> wraps \<open>func\<close>. The wrapped call threads a state \<open>'s\<close>
  (whatever \<open>func\<close> does to the world); \<open>pause\<close> is the warning that is logged and the
  \<^verbatim>\<open>time.sleep(delay)\<close> between two attempts. When the loop is left without a return
  (only possible for \<open>max_retries = 0\<close>) the Python function returns \<^verbatim>\<open>None\<close>.
\<close>

function retry_loop ::
  "nat \<Rightarrow> ('s \<Rightarrow> 's) \<Rightarrow> ('s \<Rightarrow> (exn + 'a) \<times> 's) \<Rightarrow> nat \<Rightarrow> 's \<Rightarrow> (exn + 'a option) \<times> 's" where
  "retry_loop max_retries pause func attempts s =
     (if attempts < max_retries then
        (let rs = func s in
         case fst rs of
           Inr v \<Rightarrow> (Inr (Some v), snd rs)
         | Inl e \<Rightarrow>
             if max_retries \<le> Suc attempts then (Inl e, snd rs)
             else retry_loop max_retries pause func (Suc attempts) (pause (snd rs)))
      else (Inr None, s))"
  by pat_completeness auto
termination
  by (relation "measure (\<lambda>(m, p, f, a, s). m - a)") auto

declare retry_loop.simps [simp del]

definition retry ::
  "nat \<Rightarrow> ('s \<Rightarrow> 's) \<Rightarrow> ('s \<Rightarrow> (exn + 'a) \<times> 's) \<Rightarrow> 's \<Rightarrow> (exn + 'a option) \<times> 's" where
  "retry max_retries pause func s = retry_loop max_retries pause func 0 s"

definition MAX_RETRIES :: nat where
  "MAX_RETRIES = 3"

text \<open>
  To count how often the wrapped function is entered, the state is paired with a counter
  that every call of \<open>func\<close> increments and nothing else touches.
\<close>

definition counting :: "('s \<Rightarrow> (exn + 'a) \<times> 's) \<Rightarrow> 's \<times> nat \<Rightarrow> (exn + 'a) \<times> ('s \<times> nat)" where
  "counting func = (\<lambda>(s, n). (fst (func s), (snd (func s), Suc n)))"

definition uncounted :: "('s \<Rightarrow> 's) \<Rightarrow> 's \<times> nat \<Rightarrow> 's \<times> nat" where
  "uncounted pause = (\<lambda>(s, n). (pause s, n))"

section \<open>Candidates and their ranking\<close>

text \<open>
  One entry of \<^verbatim>\<open>choices\<close> in \<^verbatim>\<open>main\<close>: a dictionary with exactly the keys title, year,
  rating and votes. The year is an \<open>int\<close> or the string \<^verbatim>\<open>"Unknown Year"\<close>.
\<close>

record details =
  title :: string
  year :: pyval
  rating :: pyval
  votes :: int

text \<open>
  \<^verbatim>\<open>list.sort(key=..., reverse=True)\<close>: CPython reverses the list, sorts it stably in
  ascending order of the key and reverses it again, which keeps equal keys in input
  order. \<open>sort_key\<close> is the stable ascending sort.
\<close>

definition sort_reverse :: "('a \<Rightarrow> 'k::linorder) \<Rightarrow> 'a list \<Rightarrow> 'a list" where
  "sort_reverse key xs = rev (sort_key key (rev xs))"

text \<open>Lines 296 to 301 of \<^verbatim>\<open>main\<close>; \<open>year_opt\<close> is \<^verbatim>\<open>int(year)\<close> when \<^verbatim>\<open>year\<close> is set.\<close>

definition sort_choices :: "int option \<Rightarrow> details list \<Rightarrow> details list" where
  "sort_choices year_opt choices =
     (case year_opt of
        Some year_int \<Rightarrow> sort_reverse (\<lambda>x. (year x = PInt year_int, votes x)) choices
      | None \<Rightarrow> sort_reverse votes choices)"

section \<open>Strings and characters\<close>

text \<open>
  A \<open>char\<close> is a code point below 256 of a Python \<^verbatim>\<open>str\<close>. The three predicates are the
  classes of the \<^verbatim>\<open>re\<close> module for \<^verbatim>\<open>str\<close> patterns on that range: \<^verbatim>\<open>\d\<close> is
  \<^verbatim>\<open>str.isdecimal\<close>, \<^verbatim>\<open>\s\<close> is \<^verbatim>\<open>str.isspace\<close> (also used by \<^verbatim>\<open>strip\<close> and
  \<^verbatim>\<open>split\<close>), \<^verbatim>\<open>\w\<close> is \<^verbatim>\<open>str.isalnum\<close> or the underscore.
\<close>

definition code :: "char \<Rightarrow> nat" where
  "code c = of_char c"

definition is_digit :: "char \<Rightarrow> bool" where
  "is_digit c = (48 \<le> code c \<and> code c \<le> 57)"

definition is_space :: "char \<Rightarrow> bool" where
  "is_space c = ((9 \<le> code c \<and> code c \<le> 13) \<or> (28 \<le> code c \<and> code c \<le> 32)
      \<or> code c = 133 \<or> code c = 160)"

definition is_word :: "char \<Rightarrow> bool" where
  "is_word c = ((48 \<le> code c \<and> code c \<le> 57) \<or> (65 \<le> code c \<and> code c \<le> 90) \<or> code c = 95
      \<or> (97 \<le> code c \<and> code c \<le> 122)
      \<or> code c \<in> {170, 178, 179, 181, 185, 186, 188, 189, 190}
      \<or> (192 \<le> code c \<and> code c \<le> 214) \<or> (216 \<le> code c \<and> code c \<le> 246) \<or> 248 \<le> code c)"

text \<open>\<^verbatim>\<open>str.isdigit\<close> of one character: the decimal digits and the superscripts 1, 2, 3.\<close>

definition is_isdigit :: "char \<Rightarrow> bool" where
  "is_isdigit c = (is_digit c \<or> code c \<in> {178, 179, 185})"

text \<open>\<^verbatim>\<open>str.upper\<close>, on ASCII letters; other characters are kept.\<close>

definition upper_char :: "char \<Rightarrow> char" where
  "upper_char c = (if 97 \<le> code c \<and> code c \<le> 122
                   then ''ABCDEFGHIJKLMNOPQRSTUVWXYZ'' ! (code c - 97) else c)"

definition upper :: "string \<Rightarrow> string" where
  "upper s = map upper_char s"

definition lower_char :: "char \<Rightarrow> char" where
  "lower_char c = (if 65 \<le> code c \<and> code c \<le> 90
                   then ''abcdefghijklmnopqrstuvwxyz'' ! (code c - 65) else c)"

definition strip :: "string \<Rightarrow> string" where
  "strip s = rev (dropWhile is_space (rev (dropWhile is_space s)))"

text \<open>\<^verbatim>\<open>str.split()\<close> without arguments: the maximal runs of non-space characters.\<close>

function split :: "string \<Rightarrow> string list" where
  "split s =
     (case dropWhile is_space s of
        [] \<Rightarrow> []
      | c # cs \<Rightarrow> takeWhile (\<lambda>x. \<not> is_space x) (c # cs)
                # split (dropWhile (\<lambda>x. \<not> is_space x) (c # cs)))"
  by pat_completeness auto
termination
proof (relation "measure length")
  fix s :: string and c cs
  assume a: "dropWhile is_space s = c # cs"
  then have "\<not> is_space c"
    by (simp add: dropWhile_eq_Cons_conv)
  moreover have "length (c # cs) \<le> length s"
    using length_dropWhile_le [of is_space s] by (simp only: a)
  moreover have "length (dropWhile (\<lambda>x. \<not> is_space x) cs) \<le> length cs"
    by (rule length_dropWhile_le)
  ultimately show "(dropWhile (\<lambda>x. \<not> is_space x) (c # cs), s) \<in> measure length"
    by simp
qed simp

declare split.simps [simp del]

fun join :: "string \<Rightarrow> string list \<Rightarrow> string" where
  "join sep [] = []"
| "join sep [w] = w"
| "join sep (w # ws) = w @ sep @ join sep ws"

text \<open>\<^verbatim>\<open>needle in haystack\<close> for two strings.\<close>

fun contains :: "string \<Rightarrow> string \<Rightarrow> bool" where
  "contains [] needle = (needle = [])"
| "contains (c # cs) needle = (take (length needle) (c # cs) = needle \<or> contains cs needle)"

text \<open>\<^verbatim>\<open>str(n)\<close> and \<^verbatim>\<open>int(s)\<close> for decimal digits.\<close>

definition digit_char :: "nat \<Rightarrow> char" where
  "digit_char d = ''0123456789'' ! d"

function str_nat :: "nat \<Rightarrow> string" where
  "str_nat n = (if n < 10 then [digit_char n] else str_nat (n div 10) @ [digit_char (n mod 10)])"
  by pat_completeness auto
termination
  by (relation "measure id") auto

declare str_nat.simps [simp del]

definition str_int :: "int \<Rightarrow> string" where
  "str_int i = (if i < 0 then CHR ''-'' # str_nat (nat (- i)) else str_nat (nat i))"

definition int_digits :: "string \<Rightarrow> int" where
  "int_digits s = foldl (\<lambda>a c. 10 * a + int (code c - 48)) 0 s"

text \<open>
  \<^verbatim>\<open>str\<close> of a value as an f-string inserts it. A float with one decimal prints its
  integer part, a point and the decimal.
\<close>

fun py_str :: "pyval \<Rightarrow> string" where
  "py_str (PStr s) = s"
| "py_str (PInt i) = str_int i"
| "py_str (PFloat t) =
     (if t < 0 then CHR ''-'' # str_nat (nat (- t) div 10) @ CHR ''.'' # str_nat (nat (- t) mod 10)
      else str_nat (nat t div 10) @ CHR ''.'' # str_nat (nat t mod 10))"
| "py_str (PBool b) = (if b then ''True'' else ''False'')"

section \<open>Regular expressions\<close>

text \<open>
  The fragment of \<^verbatim>\<open>re\<close> that the program uses. Repetition is only ever applied to a
  character class (\<^verbatim>\<open>.*?\<close>, \<^verbatim>\<open>.*\<close>, \<^verbatim>\<open>\d+\<close>, \<^verbatim>\<open>\s+\<close>), so \<open>Star\<close> and \<open>Lazy_star\<close>
  take a class; \<^verbatim>\<open>c+\<close> is \<open>Seq c (Star c)\<close>.
\<close>

datatype regex =
    Char_class "char \<Rightarrow> bool"
  | Seq regex regex
  | Alt regex regex
  | Opt regex
  | Star "char \<Rightarrow> bool"
  | Lazy_star "char \<Rightarrow> bool"
  | Word_boundary
  | End_of_string

definition lit :: "char \<Rightarrow> regex" where
  "lit c = Char_class (\<lambda>x. x = c)"

text \<open>A literal under \<^verbatim>\<open>re.IGNORECASE\<close>.\<close>

definition ilit :: "char \<Rightarrow> regex" where
  "ilit c = Char_class (\<lambda>x. lower_char x = lower_char c)"

definition dot :: "char \<Rightarrow> bool" where
  "dot c = (c \<noteq> CHR 0x0A)"

fun seqs :: "regex list \<Rightarrow> regex" where
  "seqs [r] = r"
| "seqs (r # rs) = Seq r (seqs rs)"
| "seqs [] = Opt (Char_class (\<lambda>x. False))"

fun alts :: "regex list \<Rightarrow> regex" where
  "alts [r] = r"
| "alts (r # rs) = Alt r (alts rs)"
| "alts [] = Char_class (\<lambda>x. False)"

definition word_at :: "string \<Rightarrow> nat \<Rightarrow> bool" where
  "word_at s k = (k < length s \<and> is_word (s ! k))"

text \<open>\<^verbatim>\<open>\b\<close> at position \<open>i\<close>: exactly one of the characters before and after is a word character.\<close>

definition boundary :: "string \<Rightarrow> nat \<Rightarrow> bool" where
  "boundary s i = ((0 < i \<and> word_at s (i - 1)) \<noteq> word_at s i)"

definition run :: "(char \<Rightarrow> bool) \<Rightarrow> string \<Rightarrow> nat \<Rightarrow> nat" where
  "run p s i = length (takeWhile p (drop i s))"

text \<open>
  The backtracking matcher: \<open>ends r s i\<close> lists, in the order in which Python tries them,
  the positions at which a match of \<open>r\<close> that starts at position \<open>i\<close> of \<open>s\<close> can end. The
  match Python reports is the first one.
\<close>

fun ends :: "regex \<Rightarrow> string \<Rightarrow> nat \<Rightarrow> nat list" where
  "ends (Char_class p) s i = (if i < length s \<and> p (s ! i) then [Suc i] else [])"
| "ends (Seq a b) s i = concat (map (ends b s) (ends a s i))"
| "ends (Alt a b) s i = ends a s i @ ends b s i"
| "ends (Opt a) s i = ends a s i @ [i]"
| "ends (Star p) s i = rev (map (\<lambda>k. i + k) [0 ..< Suc (run p s i)])"
| "ends (Lazy_star p) s i = map (\<lambda>k. i + k) [0 ..< Suc (run p s i)]"
| "ends Word_boundary s i = (if boundary s i then [i] else [])"
| "ends End_of_string s i =
     (if i = length s \<or> (Suc i = length s \<and> s ! i = CHR 0x0A) then [i] else [])"

definition match_at :: "regex \<Rightarrow> string \<Rightarrow> nat \<Rightarrow> nat option" where
  "match_at r s i = (case ends r s i of [] \<Rightarrow> None | j # _ \<Rightarrow> Some j)"

text \<open>\<^verbatim>\<open>re.match\<close>: a match at position 0.\<close>

definition re_match :: "regex \<Rightarrow> string \<Rightarrow> nat option" where
  "re_match r s = match_at r s 0"

text \<open>\<^verbatim>\<open>re.search\<close>: the leftmost position with a match; the result is its span.\<close>

definition re_search :: "regex \<Rightarrow> string \<Rightarrow> (nat \<times> nat) option" where
  "re_search r s =
     (case find (\<lambda>i. match_at r s i \<noteq> None) [0 ..< Suc (length s)] of
        None \<Rightarrow> None
      | Some i \<Rightarrow> Some (i, the (match_at r s i)))"

text \<open>
  \<^verbatim>\<open>re.sub(r, repl, s)\<close> from position \<open>i\<close> on: a match is replaced and the scan goes on
  behind it, any other character is copied. Every pattern the program substitutes
  consumes at least one character (\<open>nullable\<close> below is false for it), so the empty match,
  which Python would replace as well, is left out.
\<close>

function sub_from :: "regex \<Rightarrow> string \<Rightarrow> string \<Rightarrow> nat \<Rightarrow> string" where
  "sub_from r repl s i =
     (if length s \<le> i then []
      else case match_at r s i of
             None \<Rightarrow> s ! i # sub_from r repl s (Suc i)
           | Some j \<Rightarrow> if i < j then repl @ sub_from r repl s j
                       else s ! i # sub_from r repl s (Suc i))"
  by pat_completeness auto
termination
  by (relation "measure (\<lambda>(r, repl, s, i). length s - i)") auto

declare sub_from.simps [simp del]

definition re_sub :: "regex \<Rightarrow> string \<Rightarrow> string \<Rightarrow> string" where
  "re_sub r repl s = sub_from r repl s 0"

fun nullable :: "regex \<Rightarrow> bool" where
  "nullable (Char_class p) = False"
| "nullable (Seq a b) = (nullable a \<and> nullable b)"
| "nullable (Alt a b) = (nullable a \<or> nullable b)"
| "nullable (Opt a) = True"
| "nullable (Star p) = True"
| "nullable (Lazy_star p) = True"
| "nullable Word_boundary = True"
| "nullable End_of_string = True"

section \<open>Folder names\<close>

text \<open>
  The pattern \<^verbatim>\<open>\[.*?\]|\b\d+p\b|\.|\-|_\<close> of \<^verbatim>\<open>sanitize_folder_name\<close>: a bracketed tag, a
  resolution marker, or one of the three separators.
\<close>

definition bracket_re :: regex where
  "bracket_re = seqs [lit CHR ''['', Lazy_star dot, lit CHR '']'']"

definition pixels_re :: regex where
  "pixels_re = seqs [Word_boundary, Char_class is_digit, Star is_digit, lit CHR ''p'', Word_boundary]"

definition tag_re :: regex where
  "tag_re = alts [bracket_re, pixels_re, lit CHR ''.'', lit CHR ''-'', lit CHR ''_'']"

text \<open>\<^verbatim>\<open>[\(\)]\<close>\<close>

definition paren_re :: regex where
  "paren_re = Char_class (\<lambda>c. c = CHR ''('' \<or> c = CHR '')'')"

text \<open>\<^verbatim>\<open>\s+\<close>\<close>

definition spaces_re :: regex where
  "spaces_re = seqs [Char_class is_space, Star is_space]"

text \<open>\<^verbatim>\<open>\b(19|20)\d{2}\b\<close>\<close>

definition year_re :: regex where
  "year_re = seqs [Word_boundary,
                   alts [seqs [lit CHR ''1'', lit CHR ''9''], seqs [lit CHR ''2'', lit CHR ''0'']],
                   Char_class is_digit, Char_class is_digit, Word_boundary]"

text \<open>
  \<^verbatim>\<open>CONFIG["CURRENT_YEAR"]\<close> is the year of the clock when the module is loaded; it is the
  parameter \<open>current_year\<close> of the functions that read it.
\<close>

definition sanitize_folder_name :: "int \<Rightarrow> string \<Rightarrow> string" where
  "sanitize_folder_name current_year folder_name =
     (let clean_name = re_sub tag_re '' '' folder_name;
          clean_name = re_sub paren_re '' '' clean_name;
          clean_name = strip (re_sub spaces_re '' '' clean_name)
      in case re_search year_re clean_name of
           None \<Rightarrow> clean_name
         | Some (start, stop) \<Rightarrow>
             (let year_int = int_digits (take (stop - start) (drop start clean_name))
              in if 1900 \<le> year_int \<and> year_int \<le> current_year
                 then strip (take start clean_name) @ '' '' @ str_int year_int
                 else clean_name))"

definition extract_year :: "int \<Rightarrow> string \<Rightarrow> string option" where
  "extract_year current_year folder_name =
     (case re_search year_re folder_name of
        None \<Rightarrow> None
      | Some (start, stop) \<Rightarrow>
          (let year_int = int_digits (take (stop - start) (drop start folder_name))
           in if 1900 \<le> year_int \<and> year_int \<le> current_year then Some (str_int year_int)
              else None))"

text \<open>\<^verbatim>\<open>[<>:"/\\|?*]\<close>\<close>

definition illegal :: "char \<Rightarrow> bool" where
  "illegal c = (c \<in> {CHR ''<'', CHR ''>'', CHR '':'', CHR 0x22, CHR ''/'', CHR 0x5C, CHR ''|'',
      CHR ''?'', CHR ''*''})"

definition safe_name :: "string \<Rightarrow> string" where
  "safe_name name = re_sub (Char_class illegal) ''-'' name"

text \<open>\<^verbatim>\<open>.* \((19|20)\d{2}\) - IMDb[-:]\s?\d+(\.\d+)?$\<close>\<close>

definition named_re :: regex where
  "named_re = seqs [Star dot, lit CHR '' '', lit CHR ''('',
                    alts [seqs [lit CHR ''1'', lit CHR ''9''], seqs [lit CHR ''2'', lit CHR ''0'']],
                    Char_class is_digit, Char_class is_digit, lit CHR '')'',
                    lit CHR '' '', lit CHR ''-'', lit CHR '' '',
                    lit CHR ''I'', lit CHR ''M'', lit CHR ''D'', lit CHR ''b'',
                    Char_class (\<lambda>c. c = CHR ''-'' \<or> c = CHR '':''),
                    Opt (Char_class is_space),
                    Char_class is_digit, Star is_digit,
                    Opt (seqs [lit CHR ''.'', Char_class is_digit, Star is_digit]),
                    End_of_string]"

definition already_properly_named :: "string \<Rightarrow> bool" where
  "already_properly_named folder_name = (re_match named_re folder_name \<noteq> None)"

text \<open>\<^verbatim>\<open>CONFIG["EXTRANEOUS_WORDS"]\<close>\<close>

definition EXTRANEOUS_WORDS :: "string list" where
  "EXTRANEOUS_WORDS =
     [''COMPLETE'', ''720p'', ''1080p'', ''BRrip'', ''BluRay'', ''HDRip'', ''sujaidr'', ''pimprg'',
      ''YTS'', ''MX'', ''x264'', ''x265'', ''HEVC'', ''AAC'', ''WEBRip'', ''WebDL'', ''H.264'',
      ''H.265'', ''DVDrip'', ''BRRip'']"

text \<open>\<^verbatim>\<open>\(.*?\)\<close>\<close>

definition group_re :: regex where
  "group_re = seqs [lit CHR ''('', Lazy_star dot, lit CHR '')'']"

definition simplify_name :: "string list \<Rightarrow> string \<Rightarrow> string" where
  "simplify_name extraneous_words sanitized_name =
     (let words = split sanitized_name;
          simplified_words = filter (\<lambda>word. upper word \<notin> set extraneous_words) words;
          simplified_name = join '' '' simplified_words
      in strip (re_sub group_re [] simplified_name))"

definition iword :: "string \<Rightarrow> regex" where
  "iword w = seqs (map ilit w)"

text \<open>In \<^verbatim>\<open>H.264\<close> and \<^verbatim>\<open>H.265\<close> the point of the pattern is unescaped: any character but a newline.\<close>

definition season_re :: regex where
  "season_re = seqs [Word_boundary, iword ''Season'', Opt (Char_class is_space),
                     Char_class is_digit, Star is_digit, Word_boundary]"

definition episode_re :: regex where
  "episode_re = seqs [Word_boundary, iword ''Episode'', Opt (Char_class is_space),
                      Char_class is_digit, Star is_digit, Word_boundary]"

definition resolution_re :: regex where
  "resolution_re = seqs [Word_boundary, Char_class is_digit, Char_class is_digit,
                         Char_class is_digit, Opt (Char_class is_digit), ilit CHR ''p'',
                         Word_boundary]"

definition codec_re :: regex where
  "codec_re = seqs [Word_boundary,
       alts [iword ''BRRip'', iword ''BluRay'', iword ''HDRip'', iword ''WebDL'', iword ''WEBRip'',
             iword ''x264'', iword ''x265'', iword ''HEVC'', iword ''AAC'',
             seqs [ilit CHR ''H'', Char_class dot, iword ''264''],
             seqs [ilit CHR ''H'', Char_class dot, iword ''265''],
             iword ''DVDrip''],
       Word_boundary]"

definition group_tag_re :: regex where
  "group_tag_re = seqs [Word_boundary,
       alts [iword ''sujaidr'', iword ''pimprg'', iword ''YTS'', iword ''MX''], Word_boundary]"

definition extract_core_title :: "string \<Rightarrow> string" where
  "extract_core_title sanitized_name =
     (let core_title = re_sub season_re [] sanitized_name;
          core_title = re_sub episode_re [] core_title;
          core_title = re_sub resolution_re [] core_title;
          core_title = re_sub codec_re [] core_title;
          core_title = re_sub group_tag_re [] core_title
      in strip (re_sub spaces_re '' '' core_title))"

section \<open>Notions used to state the properties\<close>

text \<open>
  The year token of the specification, in its own words: at position \<open>i\<close> there are four
  characters, 19 or 20 and then two digits, with a word boundary on both sides.
\<close>

definition year_token_at :: "string \<Rightarrow> nat \<Rightarrow> bool" where
  "year_token_at s i =
     (i + 4 \<le> length s \<and> boundary s i
      \<and> ((s ! i = CHR ''1'' \<and> s ! (i + 1) = CHR ''9'') \<or> (s ! i = CHR ''2'' \<and> s ! (i + 1) = CHR ''0''))
      \<and> is_digit (s ! (i + 2)) \<and> is_digit (s ! (i + 3))
      \<and> boundary s (i + 4))"

section \<open>The catalog, the operator and the file system\<close>

text \<open>
  What \<^verbatim>\<open>ia.get_movie\<close> returns: each of the four keys may be missing.
\<close>

record movie =
  m_title :: "string option"
  m_year :: "int option"
  m_rating :: "pyval option"
  m_votes :: "int option"

text \<open>
  The effects of a run that can be observed from outside, in the order in which they
  happen. Log lines and prints other than the numbered list of the prompt are not kept.
\<close>

datatype event =
    Search string
  | Get_movie nat
  | Sleep
  | Prompt "details list"
  | Rename string string
  | Rename_failed string string
  | Would_rename string string

text \<open>
  The state that the program changes: the lines the operator has not typed yet and the
  effects so far.
\<close>

record world =
  stdin :: "string list"
  trace :: "event list"

text \<open>
  What the program reads from outside and does not change. A network call and
  \<^verbatim>\<open>os.rename\<close> may answer differently each time, so they also take the number of effects
  that have happened before. \<open>dirname\<close> and \<open>path_join\<close> are those of \<^verbatim>\<open>os.path\<close>.
\<close>

record env =
  current_year :: int
  dry_run :: bool
  base_exists :: bool
  listing :: "string list"
  isdir :: "string \<Rightarrow> bool"
  path_join :: "string \<Rightarrow> string \<Rightarrow> string"
  dirname :: "string \<Rightarrow> string"
  search_movie :: "nat \<Rightarrow> string \<Rightarrow> exn + nat list"
  get_movie :: "nat \<Rightarrow> nat \<Rightarrow> exn + movie"
  rename_ok :: "nat \<Rightarrow> string \<Rightarrow> string \<Rightarrow> bool"

definition BASE_PATH :: string where
  "BASE_PATH = [CHR ''D'', CHR '':'', CHR 0x5C, CHR ''T'', CHR ''e'', CHR ''s'', CHR ''t'']"

definition MAX_SEARCH_RESULTS :: nat where
  "MAX_SEARCH_RESULTS = 10"

definition emit :: "event \<Rightarrow> world \<Rightarrow> world" where
  "emit ev w = w\<lparr>trace := trace w @ [ev]\<rparr>"

text \<open>Between two attempts the decorator logs a warning and sleeps.\<close>

definition sleep :: "world \<Rightarrow> world" where
  "sleep w = emit Sleep w"

section \<open>Catalog lookups\<close>

text \<open>The body of \<^verbatim>\<open>fetch_movie_details\<close>: the exception is logged and raised again.\<close>

definition fetch_body :: "env \<Rightarrow> nat \<Rightarrow> world \<Rightarrow> (exn + details) \<times> world" where
  "fetch_body en movieID w =
     (case get_movie en (length (trace w)) movieID of
        Inl e \<Rightarrow> (Inl e, emit (Get_movie movieID) w)
      | Inr m \<Rightarrow>
          (Inr \<lparr>title = (case m_title m of None \<Rightarrow> ''Unknown Title'' | Some t \<Rightarrow> t),
                year = (case m_year m of None \<Rightarrow> PStr ''Unknown Year'' | Some y \<Rightarrow> PInt y),
                rating = (case m_rating m of None \<Rightarrow> PFloat 0 | Some r \<Rightarrow> r),
                votes = (case m_votes m of None \<Rightarrow> 0 | Some v \<Rightarrow> v)\<rparr>,
           emit (Get_movie movieID) w))"

definition fetch_movie_details :: "env \<Rightarrow> nat \<Rightarrow> world \<Rightarrow> (exn + details option) \<times> world" where
  "fetch_movie_details en movieID w = retry MAX_RETRIES sleep (fetch_body en movieID) w"

text \<open>
  The worker pool of \<^verbatim>\<open>get_movie_details\<close>. The fetches are modelled as running one after
  the other in the order of the search results, and \<^verbatim>\<open>as_completed\<close> as yielding them in
  that order. Leaving the \<^verbatim>\<open>with\<close> block waits for every fetch, so all of them run even
  when one has raised; the first failed one raises from \<^verbatim>\<open>future.result()\<close>. A result
  that is \<^verbatim>\<open>None\<close> is not appended.
\<close>

fun fetch_all :: "env \<Rightarrow> nat list \<Rightarrow> world \<Rightarrow> (exn + details list) \<times> world" where
  "fetch_all en [] w = (Inr [], w)"
| "fetch_all en (r # rs) w =
     (case fetch_movie_details en r w of
        (res, w') \<Rightarrow>
          (case fetch_all en rs w' of
             (rest, w'') \<Rightarrow>
               (case res of
                  Inl e \<Rightarrow> (Inl e, w'')
                | Inr None \<Rightarrow> (rest, w'')
                | Inr (Some d) \<Rightarrow>
                    (case rest of Inl e \<Rightarrow> (Inl e, w'') | Inr ds \<Rightarrow> (Inr (d # ds), w'')))))"

definition get_body :: "env \<Rightarrow> string \<Rightarrow> world \<Rightarrow> (exn + details list) \<times> world" where
  "get_body en movie_name w =
     (case search_movie en (length (trace w)) movie_name of
        Inl e \<Rightarrow> (Inl e, emit (Search movie_name) w)
      | Inr found \<Rightarrow>
          (let search_results = take MAX_SEARCH_RESULTS found
           in if search_results = [] then (Inr [], emit (Search movie_name) w)
              else fetch_all en search_results (emit (Search movie_name) w)))"

definition get_movie_details :: "env \<Rightarrow> string \<Rightarrow> world \<Rightarrow> (exn + details list option) \<times> world" where
  "get_movie_details en movie_name w = retry MAX_RETRIES sleep (get_body en movie_name) w"

section \<open>The prompt and the rename\<close>

text \<open>
  What \<^verbatim>\<open>prompt_user_choice\<close> returns is a dictionary whose keys depend on the answer, so
  it is an association list; \<open>lookup\<close> is \<^verbatim>\<open>choice[key]\<close>.
\<close>

type_synonym choice = "(string \<times> pyval) list"

definition dict_of :: "details \<Rightarrow> choice" where
  "dict_of d = [(''title'', PStr (title d)), (''year'', year d), (''rating'', rating d),
                (''votes'', PInt (votes d))]"

definition custom_choice :: "string \<Rightarrow> choice" where
  "custom_choice name = [(''title'', PStr name), (''custom'', PBool True)]"

definition lookup :: "choice \<Rightarrow> string \<Rightarrow> exn + pyval" where
  "lookup c k = (case map_of c k of None \<Rightarrow> Inl (KeyError k) | Some v \<Rightarrow> Inr v)"

definition lower :: "string \<Rightarrow> string" where
  "lower s = map lower_char s"

text \<open>
  The \<^verbatim>\<open>while True\<close> loop of \<^verbatim>\<open>prompt_user_choice\<close> over the lines still to be typed;
  \<^verbatim>\<open>input()\<close> raises \<^verbatim>\<open>EOFError\<close> when there is none. \<^verbatim>\<open>int\<close> raises \<^verbatim>\<open>ValueError\<close> on a
  superscript digit, which the loop catches.
\<close>

fun prompt_loop :: "details list \<Rightarrow> string list \<Rightarrow> (exn + choice) \<times> string list" where
  "prompt_loop choices [] = (Inl EOFError, [])"
| "prompt_loop choices (line # rest) =
     (let user_input = strip line
      in if user_input \<noteq> [] \<and> list_all is_isdigit user_input then
           (if \<not> list_all is_digit user_input then prompt_loop choices rest
            else if 1 \<le> int_digits user_input \<and> int_digits user_input \<le> int (length choices)
            then (Inr (dict_of (choices ! nat (int_digits user_input - 1))), rest)
            else if int_digits user_input = int (length choices) + 1 then
              (case rest of
                 [] \<Rightarrow> (Inl EOFError, [])
               | line2 # rest2 \<Rightarrow>
                   if strip line2 \<noteq> [] then (Inr (custom_choice (strip line2)), rest2)
                   else prompt_loop choices rest2)
            else prompt_loop choices rest)
         else if user_input \<noteq> [] then (Inr (custom_choice user_input), rest)
         else prompt_loop choices rest)"

definition prompt_user_choice :: "details list \<Rightarrow> world \<Rightarrow> (exn + choice) \<times> world" where
  "prompt_user_choice choices w =
     (case prompt_loop choices (stdin w) of
        (r, rest) \<Rightarrow> (r, (emit (Prompt choices) w)\<lparr>stdin := rest\<rparr>))"

definition rename_folder :: "env \<Rightarrow> string \<Rightarrow> choice \<Rightarrow> world \<Rightarrow> (exn + unit) \<times> world" where
  "rename_folder en folder_path choice w =
     (case lookup choice ''title'' of
        Inl e \<Rightarrow> (Inl e, w)
      | Inr t \<Rightarrow>
     (case lookup choice ''year'' of
        Inl e \<Rightarrow> (Inl e, w)
      | Inr y \<Rightarrow>
     (case lookup choice ''rating'' of
        Inl e \<Rightarrow> (Inl e, w)
      | Inr r \<Rightarrow>
          (let new_name = py_str t @ '' ('' @ py_str y @ '') - IMDb- '' @ py_str r;
               parent_dir = dirname en folder_path;
               safe_new_name = safe_name new_name;
               new_folder_path = path_join en parent_dir safe_new_name
           in if dry_run en then (Inr (), emit (Would_rename folder_path new_folder_path) w)
              else if rename_ok en (length (trace w)) folder_path new_folder_path
              then (Inr (), emit (Rename folder_path new_folder_path) w)
              else (Inr (), emit (Rename_failed folder_path new_folder_path) w)))))"

section \<open>The main loop\<close>

text \<open>
  The block that follows every search in \<^verbatim>\<open>main\<close>: prompt, then rename when the answer is
  truthy (a non-empty dictionary).
\<close>

definition offer :: "env \<Rightarrow> string \<Rightarrow> details list \<Rightarrow> world \<Rightarrow> (exn + unit) \<times> world" where
  "offer en folder_path choices w =
     (case prompt_user_choice choices w of
        (Inl e, w') \<Rightarrow> (Inl e, w')
      | (Inr final_choice, w') \<Rightarrow>
          if final_choice \<noteq> [] then rename_folder en folder_path final_choice w'
          else (Inr (), w'))"

text \<open>
  One search of \<^verbatim>\<open>main\<close> with the list comprehension and the block after it. \<open>order\<close> is
  what is done to \<^verbatim>\<open>choices\<close> between the two: the sort after the first search, nothing
  after the later ones. The result \<open>True\<close> is the \<^verbatim>\<open>continue\<close> of a non-empty list,
  \<open>False\<close> is falling through to the next step. Iterating over \<^verbatim>\<open>None\<close> raises.
\<close>

definition search_and_offer ::
  "env \<Rightarrow> (details list \<Rightarrow> details list) \<Rightarrow> string \<Rightarrow> string \<Rightarrow> world \<Rightarrow> (exn + bool) \<times> world" where
  "search_and_offer en order folder_path name w =
     (case get_movie_details en name w of
        (Inl e, w') \<Rightarrow> (Inl e, w')
      | (Inr None, w') \<Rightarrow> (Inl TypeError, w')
      | (Inr (Some search_results), w') \<Rightarrow>
          (let choices = order search_results
           in if choices \<noteq> [] then
                (case offer en folder_path choices w' of
                   (Inl e, w'') \<Rightarrow> (Inl e, w'')
                 | (Inr u, w'') \<Rightarrow> (Inr True, w''))
              else (Inr False, w')))"

text \<open>Step 5: the two \<^verbatim>\<open>input()\<close> calls and the search with the custom name.\<close>

definition custom_step :: "env \<Rightarrow> string \<Rightarrow> world \<Rightarrow> (exn + unit) \<times> world" where
  "custom_step en folder_path w =
     (case stdin w of
        [] \<Rightarrow> (Inl EOFError, w)
      | answer # rest \<Rightarrow>
          if lower (strip answer) = ''yes'' then
            (case rest of
               [] \<Rightarrow> (Inl EOFError, w\<lparr>stdin := []\<rparr>)
             | line # rest' \<Rightarrow>
                 if strip line \<noteq> [] then
                   (case search_and_offer en (\<lambda>cs. cs) folder_path (strip line) (w\<lparr>stdin := rest'\<rparr>) of
                      (Inl e, w') \<Rightarrow> (Inl e, w')
                    | (Inr b, w') \<Rightarrow> (Inr (), w'))
                 else (Inr (), w\<lparr>stdin := rest'\<rparr>))
          else (Inr (), w\<lparr>stdin := rest\<rparr>))"

text \<open>Step 4, and step 5 when it finds nothing or is skipped.\<close>

definition core_step :: "env \<Rightarrow> string \<Rightarrow> string \<Rightarrow> world \<Rightarrow> (exn + unit) \<times> world" where
  "core_step en folder_path simplified_name w =
     (let core_title = extract_core_title simplified_name
      in if core_title \<noteq> simplified_name then
           (case search_and_offer en (\<lambda>cs. cs) folder_path core_title w of
              (Inl e, w') \<Rightarrow> (Inl e, w')
            | (Inr True, w') \<Rightarrow> (Inr (), w')
            | (Inr False, w') \<Rightarrow> custom_step en folder_path w')
         else custom_step en folder_path w)"

text \<open>Step 3, and the later steps when it finds nothing or is skipped.\<close>

definition simplified_step :: "env \<Rightarrow> string \<Rightarrow> string \<Rightarrow> world \<Rightarrow> (exn + unit) \<times> world" where
  "simplified_step en folder_path sanitized_name w =
     (let simplified_name = simplify_name EXTRANEOUS_WORDS sanitized_name
      in if simplified_name \<noteq> sanitized_name then
           (case search_and_offer en (\<lambda>cs. cs) folder_path simplified_name w of
              (Inl e, w') \<Rightarrow> (Inl e, w')
            | (Inr True, w') \<Rightarrow> (Inr (), w')
            | (Inr False, w') \<Rightarrow> core_step en folder_path simplified_name w')
         else core_step en folder_path simplified_name w)"

text \<open>The name that is searched first: the sanitized name, with the year appended if it lacks it.\<close>

definition first_query :: "int \<Rightarrow> string \<Rightarrow> string" where
  "first_query cur folder =
     (let sanitized_name = sanitize_folder_name cur folder
      in case extract_year cur folder of
           None \<Rightarrow> sanitized_name
         | Some year_str \<Rightarrow>
             if \<not> contains sanitized_name year_str then sanitized_name @ '' '' @ year_str
             else sanitized_name)"

text \<open>The body of the \<^verbatim>\<open>for\<close> loop of \<^verbatim>\<open>main\<close> for one entry of the listing.\<close>

definition process_folder :: "env \<Rightarrow> string \<Rightarrow> world \<Rightarrow> (exn + unit) \<times> world" where
  "process_folder en folder w =
     (let folder_path = path_join en BASE_PATH folder
      in if \<not> isdir en folder_path then (Inr (), w)
         else if already_properly_named folder then (Inr (), w)
         else
           (let sanitized_name = first_query (current_year en) folder;
                year_str = extract_year (current_year en) folder
            in case search_and_offer en (sort_choices (map_option int_digits year_str)) folder_path
                      sanitized_name w of
                 (Inl e, w') \<Rightarrow> (Inl e, w')
               | (Inr True, w') \<Rightarrow> (Inr (), w')
               | (Inr False, w') \<Rightarrow> simplified_step en folder_path sanitized_name w'))"

text \<open>An exception that leaves the body of the loop leaves \<^verbatim>\<open>main\<close>: nothing catches it.\<close>

fun main_loop :: "env \<Rightarrow> string list \<Rightarrow> world \<Rightarrow> (exn + unit) \<times> world" where
  "main_loop en [] w = (Inr (), w)"
| "main_loop en (folder # folders) w =
     (case process_folder en folder w of
        (Inl e, w') \<Rightarrow> (Inl e, w')
      | (Inr u, w') \<Rightarrow> main_loop en folders w')"

definition main :: "env \<Rightarrow> world \<Rightarrow> (exn + unit) \<times> world" where
  "main en w = (if \<not> base_exists en then (Inr (), w) else main_loop en (listing en) w)"

section \<open>Example environments\<close>


text \<open>
  A catalog that knows nothing under the sanitized name \<^verbatim>\<open>Up COMPLETE 2009\<close> and two films
  under the simplified name \<^verbatim>\<open>Up 2009\<close>, the less popular one from another year first.
\<close>

definition film_a :: details where
  "film_a = \<lparr>title = ''Up There'', year = PInt 2012, rating = PFloat 61, votes = 5\<rparr>"

definition film_b :: details where
  "film_b = \<lparr>title = ''Up'', year = PInt 2009, rating = PFloat 83, votes = 100\<rparr>"

definition env_later :: env where
  "env_later =
     \<lparr>current_year = 2026, dry_run = True, base_exists = True, listing = [''Up COMPLETE 2009''],
      isdir = (\<lambda>p. True), path_join = (\<lambda>a b. a @ ''/'' @ b), dirname = (\<lambda>p. ''D:''),
      search_movie = (\<lambda>t q. if q = ''Up 2009'' then Inr [1, 2] else Inr []),
      get_movie = (\<lambda>t i. if i = 1
         then Inr \<lparr>m_title = Some ''Up There'', m_year = Some 2012, m_rating = Some (PFloat 61),
                   m_votes = Some 5\<rparr>
         else Inr \<lparr>m_title = Some ''Up'', m_year = Some 2009, m_rating = Some (PFloat 83),
                   m_votes = Some 100\<rparr>),
      rename_ok = (\<lambda>t a b. True)\<rparr>"

text \<open>The same catalog, but the search under the simplified name fails every time.\<close>

definition env_flaky :: env where
  "env_flaky = env_later\<lparr>search_movie :=
      (\<lambda>t q. if q = ''Up 2009'' then Inl CatalogUnavailable else Inr [])\<rparr>"


section \<open>Properties of the retry decorator\<close>

lemma retry_loop_calls:
  "snd (snd (retry_loop m (uncounted pause) (counting func) a (s, n))) \<le> n + (m - a)"
proof (induction "m - a" arbitrary: a s n)
  case 0
  then show ?case by (simp add: retry_loop.simps)
next
  case (Suc k)
  then have lt: "a < m" and k: "k = m - Suc a" by simp_all
  show ?case
  proof (cases "fst (func s)")
    case (Inr v)
    with lt show ?thesis by (simp add: retry_loop.simps [of m _ _ a] counting_def)
  next
    case (Inl e)
    show ?thesis
    proof (cases "m \<le> Suc a")
      case True
      with lt Inl show ?thesis by (simp add: retry_loop.simps [of m _ _ a] counting_def)
    next
      case False
      have step: "retry_loop m (uncounted pause) (counting func) a (s, n) =
          retry_loop m (uncounted pause) (counting func) (Suc a) (pause (snd (func s)), Suc n)"
        using lt Inl False
        by (simp add: retry_loop.simps [of m _ _ a] counting_def uncounted_def)
      have "snd (snd (retry_loop m (uncounted pause) (counting func) (Suc a)
               (pause (snd (func s)), Suc n))) \<le> Suc n + (m - Suc a)"
        using Suc.hyps(1) [OF k] .
      with step lt show ?thesis by simp
    qed
  qed
qed

text \<open>
  C7. With the default maximum of three attempts: two failures followed by a success
  return the success; the wrapped function is entered at most three times whatever it
  does; and three failures raise the error of the third attempt.
\<close>

theorem retry_three_attempts:
  "(func s0 = (Inl e1, s1) \<and> func (pause s1) = (Inl e2, s2) \<and> func (pause s2) = (Inr v, s3)
      \<longrightarrow> retry MAX_RETRIES pause func s0 = (Inr (Some v), s3))
   \<and> snd (snd (retry MAX_RETRIES (uncounted pause) (counting func) (s0, 0))) \<le> 3
   \<and> (func s0 = (Inl e1, s1) \<and> func (pause s1) = (Inl e2, s2) \<and> func (pause s2) = (Inl e3, s3)
      \<longrightarrow> retry MAX_RETRIES pause func s0 = (Inl e3, s3))"
proof (intro conjI impI)
  assume "func s0 = (Inl e1, s1) \<and> func (pause s1) = (Inl e2, s2) \<and> func (pause s2) = (Inr v, s3)"
  then show "retry MAX_RETRIES pause func s0 = (Inr (Some v), s3)"
    by (simp add: retry_def MAX_RETRIES_def retry_loop.simps [of 3])
next
  show "snd (snd (retry MAX_RETRIES (uncounted pause) (counting func) (s0, 0))) \<le> 3"
    using retry_loop_calls [of 3 pause func 0 s0 0] by (simp add: retry_def MAX_RETRIES_def)
next
  assume "func s0 = (Inl e1, s1) \<and> func (pause s1) = (Inl e2, s2) \<and> func (pause s2) = (Inl e3, s3)"
  then show "retry MAX_RETRIES pause func s0 = (Inl e3, s3)"
    by (simp add: retry_def MAX_RETRIES_def retry_loop.simps [of 3])
qed

theorem retry_three_attempts_witness:
  "retry MAX_RETRIES id (\<lambda>n::nat. (if n < 2 then Inl CatalogUnavailable else Inr (10 * n), Suc n)) 0
     = (Inr (Some 20), 3)
   \<and> retry MAX_RETRIES id (\<lambda>n::nat. (Inl (KeyError (replicate n CHR ''x'')) :: exn + nat, Suc n)) 0
     = (Inl (KeyError ''xx''), 3)"
  using retry_three_attempts [of "\<lambda>n::nat. (if n < 2 then Inl CatalogUnavailable else Inr (10 * n), Suc n)"
      0 CatalogUnavailable 1 id CatalogUnavailable 2 20 3]
    retry_three_attempts [of "\<lambda>n::nat. (Inl (KeyError (replicate n CHR ''x'')) :: exn + nat, Suc n)"
      0 "KeyError []" 1 id "KeyError ''x''" 2 undefined 3 "KeyError ''xx''"]
  by (simp add: numeral_2_eq_2)

section \<open>Properties of the ranking\<close>

lemma sort_reverse_mset: "mset (sort_reverse key xs) = mset xs"
  by (simp add: sort_reverse_def)

lemma sort_reverse_sorted: "sorted_wrt (\<lambda>a b. key b \<le> key a) (sort_reverse key xs)"
proof -
  have "sorted (map key (sort_key key (rev xs)))" by simp
  then have "sorted_wrt (\<lambda>a b. key a \<le> key b) (sort_key key (rev xs))"
    by (simp only: sorted_map)
  then show ?thesis
    by (simp only: sort_reverse_def sorted_wrt_rev)
qed

lemma sort_reverse_stable:
  "filter (\<lambda>x. key x = k) (sort_reverse key xs) = filter (\<lambda>x. key x = k) xs"
  by (simp add: sort_reverse_def rev_filter [symmetric] sort_key_stable)

text \<open>
  C3. The sorted list is a rearrangement of the input. With a target year \<open>y\<close>, an entry
  whose year equals \<open>y\<close> comes before every entry whose year does not, and among entries
  that agree on that test the votes descend; an entry with the year \<^verbatim>\<open>"Unknown Year"\<close>
  fails the test. Without a target year the votes descend. In both cases the entries
  with equal keys appear in the order they had in the input.
\<close>

theorem sort_choices_order:
  "mset (sort_choices t cs) = mset cs
   \<and> sorted_wrt (\<lambda>a b. (year a = PInt y \<and> year b \<noteq> PInt y)
          \<or> ((year a = PInt y) = (year b = PInt y) \<and> votes b \<le> votes a)) (sort_choices (Some y) cs)
   \<and> (\<forall>x. year x = PStr ''Unknown Year'' \<longrightarrow> (year x = PInt y) = False)
   \<and> sorted_wrt (\<lambda>a b. votes b \<le> votes a) (sort_choices None cs)
   \<and> (\<forall>m v. filter (\<lambda>x. (year x = PInt y) = m \<and> votes x = v) (sort_choices (Some y) cs)
           = filter (\<lambda>x. (year x = PInt y) = m \<and> votes x = v) cs)
   \<and> (\<forall>v. filter (\<lambda>x. votes x = v) (sort_choices None cs) = filter (\<lambda>x. votes x = v) cs)"
proof (intro conjI allI)
  show "mset (sort_choices t cs) = mset cs"
    by (cases t) (simp_all add: sort_choices_def sort_reverse_mset)
  have "sorted_wrt (\<lambda>a b. (year b = PInt y, votes b) \<le> (year a = PInt y, votes a))
     (sort_choices (Some y) cs)"
    unfolding sort_choices_def option.case by (rule sort_reverse_sorted)
  then show "sorted_wrt (\<lambda>a b. (year a = PInt y \<and> year b \<noteq> PInt y)
          \<or> ((year a = PInt y) = (year b = PInt y) \<and> votes b \<le> votes a)) (sort_choices (Some y) cs)"
    by (rule sorted_wrt_mono_rel [rotated]) auto
  show "sorted_wrt (\<lambda>a b. votes b \<le> votes a) (sort_choices None cs)"
    unfolding sort_choices_def option.case by (rule sort_reverse_sorted)
  show "filter (\<lambda>x. (year x = PInt y) = m \<and> votes x = v) (sort_choices (Some y) cs)
           = filter (\<lambda>x. (year x = PInt y) = m \<and> votes x = v) cs" for m v
    using sort_reverse_stable [of "\<lambda>x. (year x = PInt y, votes x)" "(m, v)" cs]
    by (simp add: sort_choices_def)
  show "filter (\<lambda>x. votes x = v) (sort_choices None cs) = filter (\<lambda>x. votes x = v) cs" for v
    by (simp add: sort_choices_def sort_reverse_stable)
  show "year x = PStr ''Unknown Year'' \<longrightarrow> (year x = PInt y) = False" for x
    by simp
qed

theorem sort_choices_order_witness:
  "mset (sort_choices (Some 2020)
      [\<lparr>title = ''A'', year = PInt 2010, rating = PFloat 71, votes = 5\<rparr>,
       \<lparr>title = ''B'', year = PInt 2020, rating = PFloat 64, votes = 100\<rparr>,
       \<lparr>title = ''C'', year = PStr ''Unknown Year'', rating = PFloat 0, votes = 7\<rparr>,
       \<lparr>title = ''D'', year = PInt 2020, rating = PFloat 80, votes = 100\<rparr>])
   = {#\<lparr>title = ''A'', year = PInt 2010, rating = PFloat 71, votes = 5\<rparr>,
       \<lparr>title = ''B'', year = PInt 2020, rating = PFloat 64, votes = 100\<rparr>,
       \<lparr>title = ''C'', year = PStr ''Unknown Year'', rating = PFloat 0, votes = 7\<rparr>,
       \<lparr>title = ''D'', year = PInt 2020, rating = PFloat 80, votes = 100\<rparr>#}
   \<and> filter (\<lambda>x. (year x = PInt 2020) = True \<and> votes x = 100) (sort_choices (Some 2020)
      [\<lparr>title = ''A'', year = PInt 2010, rating = PFloat 71, votes = 5\<rparr>,
       \<lparr>title = ''B'', year = PInt 2020, rating = PFloat 64, votes = 100\<rparr>,
       \<lparr>title = ''C'', year = PStr ''Unknown Year'', rating = PFloat 0, votes = 7\<rparr>,
       \<lparr>title = ''D'', year = PInt 2020, rating = PFloat 80, votes = 100\<rparr>])
   = [\<lparr>title = ''B'', year = PInt 2020, rating = PFloat 64, votes = 100\<rparr>,
      \<lparr>title = ''D'', year = PInt 2020, rating = PFloat 80, votes = 100\<rparr>]
   \<and> filter (\<lambda>x. votes x = 100) (sort_choices None
      [\<lparr>title = ''A'', year = PInt 2010, rating = PFloat 71, votes = 5\<rparr>,
       \<lparr>title = ''B'', year = PInt 2020, rating = PFloat 64, votes = 100\<rparr>,
       \<lparr>title = ''C'', year = PStr ''Unknown Year'', rating = PFloat 0, votes = 7\<rparr>,
       \<lparr>title = ''D'', year = PInt 2020, rating = PFloat 80, votes = 100\<rparr>])
   = [\<lparr>title = ''B'', year = PInt 2020, rating = PFloat 64, votes = 100\<rparr>,
      \<lparr>title = ''D'', year = PInt 2020, rating = PFloat 80, votes = 100\<rparr>]
   \<and> (year \<lparr>title = ''C'', year = PStr ''Unknown Year'', rating = PFloat 0, votes = 7\<rparr> = PInt 2020) = False"
proof -
  let ?cs = "[\<lparr>title = ''A'', year = PInt 2010, rating = PFloat 71, votes = 5\<rparr>,
       \<lparr>title = ''B'', year = PInt 2020, rating = PFloat 64, votes = 100\<rparr>,
       \<lparr>title = ''C'', year = PStr ''Unknown Year'', rating = PFloat 0, votes = 7\<rparr>,
       \<lparr>title = ''D'', year = PInt 2020, rating = PFloat 80, votes = 100\<rparr>]"
  note t = sort_choices_order [of "Some 2020" ?cs 2020]
  note rest = t [THEN conjunct2, THEN conjunct2]
  have 1: "mset (sort_choices (Some 2020) ?cs) = mset ?cs"
    by (rule t [THEN conjunct1])
  have 2: "filter (\<lambda>x. (year x = PInt 2020) = True \<and> votes x = 100) (sort_choices (Some 2020) ?cs)
      = filter (\<lambda>x. (year x = PInt 2020) = True \<and> votes x = 100) ?cs"
    by (rule rest [THEN conjunct2, THEN conjunct2, THEN conjunct1, THEN spec, THEN spec])
  have 3: "filter (\<lambda>x. votes x = 100) (sort_choices None ?cs) = filter (\<lambda>x. votes x = 100) ?cs"
    by (rule rest [THEN conjunct2, THEN conjunct2, THEN conjunct2, THEN spec])
  show ?thesis
    unfolding 1 2 3 by simp
qed

section \<open>Evaluating the matcher\<close>

text \<open>The equations that \<open>simp\<close> needs to run the matcher on a given string.\<close>

lemmas char_classes = is_space_def is_digit_def is_word_def is_isdigit_def code_def dot_def lit_def
  ilit_def illegal_def lower_char_def upper_char_def

lemmas patterns = tag_re_def bracket_re_def pixels_re_def paren_re_def spaces_re_def year_re_def
  named_re_def group_re_def

lemmas matcher = match_at_def boundary_def word_at_def run_def re_sub_def sub_from.simps
  re_search_def re_match_def

lemmas catalog_calls = get_movie_details_def get_body_def fetch_movie_details_def fetch_body_def
  retry_def retry_loop.simps MAX_RETRIES_def MAX_SEARCH_RESULTS_def sleep_def emit_def

lemma str_int_2009: "str_int 2009 = ''2009''"
  by (simp add: str_int_def str_nat.simps digit_char_def)

text \<open>The folder \<^verbatim>\<open>Up COMPLETE 2009\<close> through the name functions.\<close>

lemma up_not_named: "\<not> already_properly_named ''Up COMPLETE 2009''"
  by (simp add: already_properly_named_def named_re_def char_classes matcher)

lemma up_tags: "re_sub tag_re '' '' ''Up COMPLETE 2009'' = ''Up COMPLETE 2009''"
  by (simp add: tag_re_def bracket_re_def pixels_re_def char_classes matcher)

lemma up_parens: "re_sub paren_re '' '' ''Up COMPLETE 2009'' = ''Up COMPLETE 2009''"
  by (simp add: paren_re_def char_classes matcher)

lemma up_spaces: "re_sub spaces_re '' '' ''Up COMPLETE 2009'' = ''Up COMPLETE 2009''"
  by (simp add: spaces_re_def char_classes matcher)

lemma up_strip: "strip ''Up COMPLETE 2009'' = ''Up COMPLETE 2009''"
  "strip ''Up COMPLETE '' = ''Up COMPLETE''" "strip ''Up 2009'' = ''Up 2009''"
  by (simp_all add: strip_def char_classes)

lemma up_year: "re_search year_re ''Up COMPLETE 2009'' = Some (12, 16)"
  by (simp add: year_re_def char_classes matcher)

lemma up_sanitize: "sanitize_folder_name 2026 ''Up COMPLETE 2009'' = ''Up COMPLETE 2009''"
  by (simp add: sanitize_folder_name_def up_tags up_parens up_spaces up_strip up_year
      int_digits_def code_def str_int_2009)

lemma up_extract_year: "extract_year 2026 ''Up COMPLETE 2009'' = Some ''2009''"
  by (simp add: extract_year_def up_year int_digits_def code_def str_int_2009)

lemma up_first_query: "first_query 2026 ''Up COMPLETE 2009'' = ''Up COMPLETE 2009''"
  by (simp add: first_query_def up_sanitize up_extract_year)

lemma up_split: "split ''Up COMPLETE 2009'' = [''Up'', ''COMPLETE'', ''2009'']"
  by (simp add: split.simps char_classes)

lemma up_groups: "re_sub group_re [] ''Up 2009'' = ''Up 2009''"
  by (simp add: group_re_def char_classes matcher)

lemma up_simplify: "simplify_name EXTRANEOUS_WORDS ''Up COMPLETE 2009'' = ''Up 2009''"
  by (simp add: simplify_name_def up_split EXTRANEOUS_WORDS_def upper_def char_classes up_groups
      up_strip)

section \<open>Properties of the main loop\<close>






subsection \<open>Folders that already carry the final name\<close>

text \<open>
  C10. For a folder whose name already matches the pattern of the final names, the body
  of the loop returns with the world as it was: no search, no fetch, no prompt and no
  rename has happened, and the loop goes on with the next entry.
\<close>

theorem named_folder_untouched:
  "already_properly_named folder \<Longrightarrow>
   process_folder en folder w = (Inr (), w)
   \<and> main_loop en (folder # folders) w = main_loop en folders w"
  by (simp add: process_folder_def Let_def)

theorem named_folder_untouched_witness:
  "already_properly_named ''Up (2009) - IMDb- 8.3''
   \<and> process_folder env_later ''Up (2009) - IMDb- 8.3'' \<lparr>stdin = [''1''], trace = []\<rparr>
       = (Inr (), \<lparr>stdin = [''1''], trace = []\<rparr>)
   \<and> main_loop env_later [''Up (2009) - IMDb- 8.3''] \<lparr>stdin = [''1''], trace = []\<rparr>
       = (Inr (), \<lparr>stdin = [''1''], trace = []\<rparr>)"
proof -
  have named: "already_properly_named ''Up (2009) - IMDb- 8.3''"
    by (simp add: already_properly_named_def named_re_def char_classes matcher)
  from named_folder_untouched [OF named, of env_later "\<lparr>stdin = [''1''], trace = []\<rparr>" "[]"] named
  show ?thesis by simp
qed

subsection \<open>A catalog that stays unavailable\<close>










subsection \<open>The lists of the later searches\<close>

lemma later_env: "current_year env_later = 2026" "base_exists env_later"
  "listing env_later = [''Up COMPLETE 2009'']" "isdir env_later = (\<lambda>p. True)"
  "path_join env_later = (\<lambda>a b. a @ ''/'' @ b)"
  by (simp_all add: env_later_def)

lemma later_search1:
  "get_movie_details env_later ''Up COMPLETE 2009'' \<lparr>stdin = [''1''], trace = []\<rparr>
   = (Inr (Some []), \<lparr>stdin = [''1''], trace = [Search ''Up COMPLETE 2009'']\<rparr>)"
  by (simp add: catalog_calls env_later_def)

lemma later_search2:
  "get_movie_details env_later ''Up 2009''
     \<lparr>stdin = [''1''], trace = [Search ''Up COMPLETE 2009'']\<rparr>
   = (Inr (Some [film_a, film_b]),
      \<lparr>stdin = [''1''],
       trace = [Search ''Up COMPLETE 2009'', Search ''Up 2009'', Get_movie 1, Get_movie 2]\<rparr>)"
  by (simp add: catalog_calls env_later_def film_a_def film_b_def)

lemma later_prompt:
  "prompt_user_choice [film_a, film_b] \<lparr>stdin = [''1''], trace = t\<rparr>
   = (Inr (dict_of film_a), \<lparr>stdin = [], trace = t @ [Prompt [film_a, film_b]]\<rparr>)"
  by (simp add: prompt_user_choice_def strip_def char_classes int_digits_def emit_def)

lemma later_safe_name:
  "safe_name ''Up There (2012) - IMDb- 6.1'' = ''Up There (2012) - IMDb- 6.1''"
  by (simp add: safe_name_def char_classes matcher)

lemma later_rename:
  "rename_folder env_later p (dict_of film_a) \<lparr>stdin = [], trace = t\<rparr>
   = (Inr (), \<lparr>stdin = [], trace = t @ [Would_rename p ''D:/Up There (2012) - IMDb- 6.1'']\<rparr>)"
  by (simp add: rename_folder_def lookup_def dict_of_def film_a_def env_later_def emit_def
      str_int_def str_nat.simps digit_char_def later_safe_name)

text \<open>
  C2 at a later step. The folder \<^verbatim>\<open>Up COMPLETE 2009\<close> has the year 2009; the search under
  the sanitized name finds nothing, the search under the simplified name \<^verbatim>\<open>Up 2009\<close>
  finds the film of 2012 with 5 votes before the film of 2009 with 100 votes. The prompt
  shows the two in that order, and the answer 1 picks the film of 2012; the sort of the
  first step puts the film of 2009 first.
\<close>

theorem later_stage_unranked:
  "main env_later \<lparr>stdin = [''1''], trace = []\<rparr>
     = (Inr (),
        \<lparr>stdin = [],
         trace = [Search ''Up COMPLETE 2009'', Search ''Up 2009'', Get_movie 1, Get_movie 2,
                  Prompt [film_a, film_b],
                  Would_rename (BASE_PATH @ ''/Up COMPLETE 2009'')
                    ''D:/Up There (2012) - IMDb- 6.1'']\<rparr>)
   \<and> extract_year (current_year env_later) ''Up COMPLETE 2009'' = Some ''2009''
   \<and> sort_choices (Some 2009) [film_a, film_b] = [film_b, film_a]"
proof -
  have nonempty: "dict_of film_a \<noteq> []" by (simp add: dict_of_def)
  have "sort_choices (Some 2009) [film_a, film_b] = [film_b, film_a]"
    by (simp add: sort_choices_def sort_reverse_def film_a_def film_b_def)
  moreover have "main env_later \<lparr>stdin = [''1''], trace = []\<rparr>
     = (Inr (),
        \<lparr>stdin = [],
         trace = [Search ''Up COMPLETE 2009'', Search ''Up 2009'', Get_movie 1, Get_movie 2,
                  Prompt [film_a, film_b],
                  Would_rename (BASE_PATH @ ''/Up COMPLETE 2009'')
                    ''D:/Up There (2012) - IMDb- 6.1'']\<rparr>)"
    by (simp add: main_def process_folder_def simplified_step_def search_and_offer_def offer_def
        later_env up_not_named up_first_query up_extract_year up_simplify later_search1
        later_search2 later_prompt later_rename nonempty int_digits_def code_def sort_choices_def
        sort_reverse_def Let_def)
  ultimately show ?thesis by (simp add: later_env up_extract_year)
qed

subsection \<open>A custom title\<close>

















subsection \<open>The words that are removed\<close>

lemma bluray_split: "split ''Up BluRay'' = [''Up'', ''BluRay'']"
  "split ''Up bluray'' = [''Up'', ''bluray'']" "split ''Up complete'' = [''Up'', ''complete'']"
  by (simp_all add: split.simps char_classes)

lemma bluray_groups: "re_sub group_re [] ''Up BluRay'' = ''Up BluRay''"
  "re_sub group_re [] ''Up bluray'' = ''Up bluray''" "re_sub group_re [] ''Up'' = ''Up''"
  by (simp_all add: group_re_def char_classes matcher)

lemma bluray_strip: "strip ''Up BluRay'' = ''Up BluRay''" "strip ''Up bluray'' = ''Up bluray''"
  "strip ''Up'' = ''Up''"
  by (simp_all add: strip_def char_classes)

text \<open>
  C6 on the configured list. \<^verbatim>\<open>BluRay\<close> is an entry of the list, yet neither \<^verbatim>\<open>BluRay\<close>
  nor \<^verbatim>\<open>bluray\<close> is removed: the word is upper-cased, the entries are not, so only the
  entries written in capitals can ever be equal to it. \<^verbatim>\<open>complete\<close> is removed.
\<close>

theorem mixed_case_word_kept:
  "''BluRay'' \<in> set EXTRANEOUS_WORDS
   \<and> simplify_name EXTRANEOUS_WORDS ''Up BluRay'' = ''Up BluRay''
   \<and> simplify_name EXTRANEOUS_WORDS ''Up bluray'' = ''Up bluray''
   \<and> simplify_name EXTRANEOUS_WORDS ''Up complete'' = ''Up''"
  by (simp add: simplify_name_def bluray_split EXTRANEOUS_WORDS_def upper_def upper_char_def
      code_def bluray_groups bluray_strip)

section \<open>The year of a folder name\<close>

lemma year_re_ends: "ends year_re s i = (if year_token_at s i then [i + 4] else [])"
  by (auto simp: year_re_def lit_def year_token_at_def eval_nat_numeral)

lemma year_re_match: "match_at year_re s i = (if year_token_at s i then Some (i + 4) else None)"
  by (simp add: match_at_def year_re_ends)

lemma year_token_in_range: "year_token_at s i \<Longrightarrow> i < Suc (length s)"
  by (simp add: year_token_at_def)

lemma year_search_Some:
  "re_search year_re s = Some (i, j) \<longleftrightarrow>
     year_token_at s i \<and> (\<forall>k<i. \<not> year_token_at s k) \<and> j = i + 4"
proof -
  have "find (\<lambda>i. year_token_at s i) [0 ..< Suc (length s)] = Some i \<longleftrightarrow>
      year_token_at s i \<and> (\<forall>k<i. \<not> year_token_at s k)"
    using year_token_in_range [of s i]
    by (auto simp: find_Some_iff nth_upt simp del: upt_Suc)
  then show ?thesis
    by (auto simp: re_search_def year_re_match split: option.splits simp del: upt_Suc)
qed

lemma year_search_None: "re_search year_re s = None \<longleftrightarrow> (\<forall>i. \<not> year_token_at s i)"
proof -
  have "find (\<lambda>i. year_token_at s i) [0 ..< Suc (length s)] = None \<longleftrightarrow> (\<forall>i. \<not> year_token_at s i)"
    using year_token_in_range [of s]
    by (auto simp: find_None_iff simp del: upt_Suc)
  then show ?thesis
    by (auto simp: re_search_def year_re_match split: option.splits simp del: upt_Suc)
qed

subsection \<open>Decimal digits\<close>

lemma digit_char_code: "is_digit c \<Longrightarrow> digit_char (code c - 48) = c"
proof -
  assume "is_digit c"
  then have "code c \<in> {48, 49, 50, 51, 52, 53, 54, 55, 56, 57}"
    unfolding is_digit_def by simp arith
  then consider "of_char c = (48::nat)" | "of_char c = (49::nat)" | "of_char c = (50::nat)"
    | "of_char c = (51::nat)" | "of_char c = (52::nat)" | "of_char c = (53::nat)"
    | "of_char c = (54::nat)" | "of_char c = (55::nat)" | "of_char c = (56::nat)"
    | "of_char c = (57::nat)"
    unfolding code_def by auto
  then show ?thesis
  proof cases
    case 1
    then have "of_char c = (of_char CHR ''0'' :: nat)" by simp
    then have "c = CHR ''0''" by (rule of_char_eqI)
    then show ?thesis by (simp add: digit_char_def code_def)
  next
    case 2
    then have "of_char c = (of_char CHR ''1'' :: nat)" by simp
    then have "c = CHR ''1''" by (rule of_char_eqI)
    then show ?thesis by (simp add: digit_char_def code_def)
  next
    case 3
    then have "of_char c = (of_char CHR ''2'' :: nat)" by simp
    then have "c = CHR ''2''" by (rule of_char_eqI)
    then show ?thesis by (simp add: digit_char_def code_def)
  next
    case 4
    then have "of_char c = (of_char CHR ''3'' :: nat)" by simp
    then have "c = CHR ''3''" by (rule of_char_eqI)
    then show ?thesis by (simp add: digit_char_def code_def)
  next
    case 5
    then have "of_char c = (of_char CHR ''4'' :: nat)" by simp
    then have "c = CHR ''4''" by (rule of_char_eqI)
    then show ?thesis by (simp add: digit_char_def code_def)
  next
    case 6
    then have "of_char c = (of_char CHR ''5'' :: nat)" by simp
    then have "c = CHR ''5''" by (rule of_char_eqI)
    then show ?thesis by (simp add: digit_char_def code_def)
  next
    case 7
    then have "of_char c = (of_char CHR ''6'' :: nat)" by simp
    then have "c = CHR ''6''" by (rule of_char_eqI)
    then show ?thesis by (simp add: digit_char_def code_def)
  next
    case 8
    then have "of_char c = (of_char CHR ''7'' :: nat)" by simp
    then have "c = CHR ''7''" by (rule of_char_eqI)
    then show ?thesis by (simp add: digit_char_def code_def)
  next
    case 9
    then have "of_char c = (of_char CHR ''8'' :: nat)" by simp
    then have "c = CHR ''8''" by (rule of_char_eqI)
    then show ?thesis by (simp add: digit_char_def code_def)
  next
    case 10
    then have "of_char c = (of_char CHR ''9'' :: nat)" by simp
    then have "c = CHR ''9''" by (rule of_char_eqI)
    then show ?thesis by (simp add: digit_char_def code_def)
  qed
qed

lemma is_digit_digit_char: "d < 10 \<Longrightarrow> is_digit (digit_char d)"
proof -
  assume "d < 10"
  then consider "d = 0" | "d = 1" | "d = 2" | "d = 3" | "d = 4" | "d = 5" | "d = 6" | "d = 7"
    | "d = 8" | "d = 9"
    by atomize_elim arith
  then show ?thesis
    by cases (simp_all add: digit_char_def is_digit_def code_def)
qed

lemma str_nat_small: "n < 10 \<Longrightarrow> str_nat n = [digit_char n]"
  by (subst str_nat.simps) simp

lemma str_nat_step: "10 \<le> n \<Longrightarrow> str_nat n = str_nat (n div 10) @ [digit_char (n mod 10)]"
  by (subst str_nat.simps) simp

lemma div_mod_ten: "r < 10 \<Longrightarrow> (10 * q + r) div 10 = (q::nat)" "r < 10 \<Longrightarrow> (10 * q + r) mod 10 = (r::nat)"
  by simp_all

lemma str_nat_snoc:
  assumes "0 < q" "r < 10"
  shows "str_nat (10 * q + r) = str_nat q @ [digit_char r]"
proof -
  have "10 \<le> 10 * q + r" using assms by simp
  from str_nat_step [OF this] show ?thesis
    using assms by (simp only: div_mod_ten)
qed

lemma str_nat_four:
  assumes "0 < a" "a < 10" "b < 10" "c < 10" "d < 10"
  shows "str_nat (1000 * a + 100 * b + 10 * c + d) = map digit_char [a, b, c, d]"
proof -
  have "1000 * a + 100 * b + 10 * c + d = 10 * (10 * (10 * a + b) + c) + d" by simp
  also have "str_nat \<dots> = str_nat (10 * (10 * a + b) + c) @ [digit_char d]"
    using assms by (intro str_nat_snoc) simp_all
  also have "str_nat (10 * (10 * a + b) + c) = str_nat (10 * a + b) @ [digit_char c]"
    using assms by (intro str_nat_snoc) simp_all
  also have "str_nat (10 * a + b) = str_nat a @ [digit_char b]"
    using assms by (intro str_nat_snoc) simp_all
  also have "str_nat a = [digit_char a]" using assms by (simp add: str_nat_small)
  finally show ?thesis by simp
qed

lemma digit_value: "is_digit c \<Longrightarrow> code c - 48 < 10"
  by (auto simp: is_digit_def)

lemma int_digits_four:
  "int_digits [a, b, c, d] =
     int (1000 * (code a - 48) + 100 * (code b - 48) + 10 * (code c - 48) + (code d - 48))"
  by (simp add: int_digits_def)

text \<open>Four digits that do not start with 0 are printed back as they were read.\<close>

lemma str_int_digits_four:
  assumes "is_digit a" "is_digit b" "is_digit c" "is_digit d" "a \<noteq> CHR ''0''"
  shows "str_int (int_digits [a, b, c, d]) = [a, b, c, d]"
proof -
  have "code a \<noteq> 48"
  proof
    assume "code a = 48"
    then have "of_char a = (of_char CHR ''0'' :: nat)" by (simp add: code_def)
    then have "a = CHR ''0''" by (rule of_char_eqI)
    with assms(5) show False by simp
  qed
  with assms(1) have "0 < code a - 48" by (auto simp: is_digit_def)
  then have "str_nat (1000 * (code a - 48) + 100 * (code b - 48) + 10 * (code c - 48) + (code d - 48))
      = map digit_char [code a - 48, code b - 48, code c - 48, code d - 48]"
    using assms by (intro str_nat_four digit_value)
  then show ?thesis
    using assms by (simp add: str_int_def int_digits_four digit_char_code del: of_nat_add of_nat_mult)
qed

lemma year_token_chars:
  assumes "year_token_at s i"
  shows "take 4 (drop i s) = [s ! i, s ! (i + 1), s ! (i + 2), s ! (i + 3)]"
    and "is_digit (s ! i)" "is_digit (s ! (i + 1))" "is_digit (s ! (i + 2))" "is_digit (s ! (i + 3))"
    and "s ! i \<noteq> CHR ''0''"
proof -
  from assms have len: "i + 4 \<le> length s" by (simp add: year_token_at_def)
  then have "drop i s = s ! i # s ! (i + 1) # s ! (i + 2) # s ! (i + 3) # drop (i + 4) s"
    by (simp add: Cons_nth_drop_Suc eval_nat_numeral)
  then show "take 4 (drop i s) = [s ! i, s ! (i + 1), s ! (i + 2), s ! (i + 3)]"
    by simp
  from assms show "is_digit (s ! i)" "is_digit (s ! (i + 1))" "is_digit (s ! (i + 2))"
    "is_digit (s ! (i + 3))" "s ! i \<noteq> CHR ''0''"
    by (auto simp: year_token_at_def is_digit_def code_def)
qed

lemma year_token_roundtrip:
  assumes "year_token_at s i"
  shows "str_int (int_digits (take 4 (drop i s))) = take 4 (drop i s)"
  unfolding year_token_chars(1) [OF assms]
  by (rule str_int_digits_four) (rule year_token_chars [OF assms])+

lemma year_token_value:
  assumes "year_token_at s i"
  shows "1900 \<le> int_digits (take 4 (drop i s))" "int_digits (take 4 (drop i s)) \<le> 2099"
proof -
  have c: "code (s ! (i + 2)) - 48 < 10" "code (s ! (i + 3)) - 48 < 10"
    using assms year_token_chars [OF assms] by (auto intro: digit_value)
  from assms consider "s ! i = CHR ''1'' \<and> s ! (i + 1) = CHR ''9''"
    | "s ! i = CHR ''2'' \<and> s ! (i + 1) = CHR ''0''"
    by (auto simp: year_token_at_def)
  then show "1900 \<le> int_digits (take 4 (drop i s))" "int_digits (take 4 (drop i s)) \<le> 2099"
    using c by (cases; simp add: year_token_chars(1) [OF assms] int_digits_four code_def
        del: One_nat_def)+
qed

text \<open>
  C9. \<^verbatim>\<open>extract_year\<close> returns a value exactly when the first year token of the name,
  read as a number, lies between 1900 and the current year, and the value is that token;
  so whatever it returns lies in that range. The names \<^verbatim>\<open>2999\<close> and \<^verbatim>\<open>1899\<close> have no
  year token and give nothing. The function is a function of its arguments only.
\<close>

theorem extract_year_first_token:
  "(extract_year cur s = Some y \<longleftrightarrow>
      (\<exists>i. year_token_at s i \<and> (\<forall>k<i. \<not> year_token_at s k) \<and> y = take 4 (drop i s)
           \<and> 1900 \<le> int_digits y \<and> int_digits y \<le> cur))
   \<and> extract_year cur ''2999'' = None \<and> extract_year cur ''1899'' = None"
proof (intro conjI iffI)
  assume "extract_year cur s = Some y"
  then obtain i j where found: "re_search year_re s = Some (i, j)"
    and y: "y = str_int (int_digits (take (j - i) (drop i s)))"
    and range: "1900 \<le> int_digits (take (j - i) (drop i s))"
      "int_digits (take (j - i) (drop i s)) \<le> cur"
    by (auto simp: extract_year_def Let_def split: option.splits if_splits)
  from found have token: "year_token_at s i" and first: "\<forall>k<i. \<not> year_token_at s k"
    and j: "j = i + 4"
    by (simp_all add: year_search_Some)
  have "y = take 4 (drop i s)"
    using y year_token_roundtrip [OF token] by (simp add: j)
  with token first range j
  show "\<exists>i. year_token_at s i \<and> (\<forall>k<i. \<not> year_token_at s k) \<and> y = take 4 (drop i s)
           \<and> 1900 \<le> int_digits y \<and> int_digits y \<le> cur"
    by auto
next
  assume "\<exists>i. year_token_at s i \<and> (\<forall>k<i. \<not> year_token_at s k) \<and> y = take 4 (drop i s)
           \<and> 1900 \<le> int_digits y \<and> int_digits y \<le> cur"
  then obtain i where token: "year_token_at s i" and first: "\<forall>k<i. \<not> year_token_at s k"
    and y: "y = take 4 (drop i s)" and range: "1900 \<le> int_digits y" "int_digits y \<le> cur"
    by blast
  from token first have "re_search year_re s = Some (i, i + 4)"
    by (simp add: year_search_Some)
  then show "extract_year cur s = Some y"
    using range y year_token_roundtrip [OF token] by (simp add: extract_year_def)
next
  have "re_search year_re ''2999'' = None" "re_search year_re ''1899'' = None"
    by (auto simp: year_search_None year_token_at_def)
  then show "extract_year cur ''2999'' = None" "extract_year cur ''1899'' = None"
    by (simp_all add: extract_year_def)
qed

theorem extract_year_first_token_witness:
  "extract_year 2026 ''Heat.1995.2001'' = Some ''1995''
   \<and> year_token_at ''Heat.1995.2001'' 5 \<and> year_token_at ''Heat.1995.2001'' 10
   \<and> extract_year 2026 ''Up.2099'' = None \<and> year_token_at ''Up.2099'' 3"
proof -
  have t: "year_token_at ''Heat.1995.2001'' 5" "year_token_at ''Heat.1995.2001'' 10"
    by (simp_all add: year_token_at_def boundary_def word_at_def is_word_def is_digit_def code_def)
  have f: "\<forall>k<5. \<not> year_token_at ''Heat.1995.2001'' k"
  proof (intro allI impI)
    fix k :: nat
    assume "k < 5"
    then consider "k = 0" | "k = 1" | "k = 2" | "k = 3" | "k = 4"
      by atomize_elim arith
    then show "\<not> year_token_at ''Heat.1995.2001'' k"
      by cases (simp_all add: year_token_at_def)
  qed
  have "\<exists>i. year_token_at ''Heat.1995.2001'' i \<and> (\<forall>k<i. \<not> year_token_at ''Heat.1995.2001'' k)
      \<and> ''1995'' = take 4 (drop i ''Heat.1995.2001'')
      \<and> 1900 \<le> int_digits ''1995'' \<and> int_digits ''1995'' \<le> 2026"
    using t(1) f by (intro exI [of _ 5]) (simp add: int_digits_def code_def)
  with extract_year_first_token [of 2026 "''Heat.1995.2001''" "''1995''"]
  have 1: "extract_year 2026 ''Heat.1995.2001'' = Some ''1995''" by blast
  have u: "year_token_at ''Up.2099'' 3"
    by (simp add: year_token_at_def boundary_def word_at_def is_word_def is_digit_def code_def)
  have "extract_year 2026 ''Up.2099'' \<noteq> Some y" for y
  proof
    assume "extract_year 2026 ''Up.2099'' = Some y"
    with extract_year_first_token [of 2026 "''Up.2099''" y]
    obtain i where i: "year_token_at ''Up.2099'' i" "y = take 4 (drop i ''Up.2099'')"
      "int_digits y \<le> 2026" by blast
    from i(1) have "i + 4 \<le> 7" by (simp add: year_token_at_def)
    then consider "i = 0" | "i = 1" | "i = 2" | "i = 3"
      by atomize_elim arith
    then show False
      using i by cases (simp_all add: year_token_at_def int_digits_def code_def)
  qed
  then have 2: "extract_year 2026 ''Up.2099'' = None" by (cases "extract_year 2026 ''Up.2099''") auto
  from 1 2 t u show ?thesis by simp
qed

end
